theory Spec2Isabelle
  imports Complex_Main "HOL-Library.Multiset"
begin

section \<open>Tensor values\<close>

text \<open>
  The tensors of \<^verbatim>\<open>sleap/nn/data/edge_maps.py\<close> hold \<^verbatim>\<open>tf.float32\<close> values. An element is
  modelled as an exact real number or one of the three special values of the format:
  the two infinities and NaN. The special values follow the IEEE rules that TensorFlow
  applies (NaN propagates through every operation, \<open>0 / 0\<close> and \<open>\<infinity> - \<infinity>\<close> are NaN,
  a non-zero value divided by zero is an infinity, every comparison with NaN is false).
  Rounding and the sign of zero are not modelled: the finite results of \<open>+\<close>, \<open>-\<close>, \<open>*\<close>
  and \<open>/\<close> are exact, and a zero divisor counts as \<open>+0\<close>. The range of the format is
  modelled where a result leaves it in ordinary use or decides what a later division
  does: in \<^verbatim>\<open>tf.exp\<close> and in the squares and the sum of \<^verbatim>\<open>tf.linalg.norm\<close>.
\<close>

datatype f32 = Fin real | PInf | NInf | NaN

fun is_nan :: "f32 \<Rightarrow> bool" where
  "is_nan NaN = True"
| "is_nan _ = False"


fun f_neg :: "f32 \<Rightarrow> f32" where
  "f_neg (Fin a) = Fin (- a)"
| "f_neg PInf = NInf"
| "f_neg NInf = PInf"
| "f_neg NaN = NaN"

fun f_add :: "f32 \<Rightarrow> f32 \<Rightarrow> f32" where
  "f_add (Fin a) (Fin b) = Fin (a + b)"
| "f_add NaN _ = NaN"
| "f_add _ NaN = NaN"
| "f_add PInf NInf = NaN"
| "f_add NInf PInf = NaN"
| "f_add PInf _ = PInf"
| "f_add _ PInf = PInf"
| "f_add NInf _ = NInf"
| "f_add _ NInf = NInf"

definition f_sub :: "f32 \<Rightarrow> f32 \<Rightarrow> f32" where
  "f_sub x y = f_add x (f_neg y)"

text \<open>The sign of a value: \<open>1\<close>, \<open>0\<close> or \<open>-1\<close> (\<open>0\<close> for NaN, which the callers exclude).\<close>

fun f_sign :: "f32 \<Rightarrow> int" where
  "f_sign (Fin a) = (if a = 0 then 0 else if 0 < a then 1 else - 1)"
| "f_sign PInf = 1"
| "f_sign NInf = - 1"
| "f_sign NaN = 0"

definition inf_of_sign :: "int \<Rightarrow> f32" where
  "inf_of_sign s = (if s = 0 then NaN else if 0 < s then PInf else NInf)"

text \<open>
  The range of \<^verbatim>\<open>tf.float32\<close>: a result of magnitude \<open>2\<^sup>1\<^sup>2\<^sup>8\<close> or more overflows to an
  infinity, and a result of magnitude \<open>2\<^sup>-\<^sup>1\<^sup>5\<^sup>0\<close> or less (half the smallest positive
  value of the format) underflows to zero.
\<close>

definition f_range :: "f32 \<Rightarrow> f32" where
  "f_range x =
     (case x of
        Fin r \<Rightarrow>
          (if 2 ^ 128 \<le> \<bar>r\<bar> then (if 0 < r then PInf else NInf)
           else if \<bar>r\<bar> \<le> 1 / 2 ^ 150 then Fin 0
           else Fin r)
      | _ \<Rightarrow> x)"

fun f_mul :: "f32 \<Rightarrow> f32 \<Rightarrow> f32" where
  "f_mul (Fin a) (Fin b) = Fin (a * b)"
| "f_mul NaN _ = NaN"
| "f_mul _ NaN = NaN"
| "f_mul x y = inf_of_sign (f_sign x * f_sign y)"

fun f_div :: "f32 \<Rightarrow> f32 \<Rightarrow> f32" where
  "f_div (Fin a) (Fin b) = (if b = 0 then inf_of_sign (f_sign (Fin a)) else Fin (a / b))"
| "f_div NaN _ = NaN"
| "f_div _ NaN = NaN"
| "f_div (Fin a) _ = Fin 0"
| "f_div x (Fin b) = inf_of_sign (f_sign x * (if b < 0 then - 1 else 1))"
| "f_div _ _ = NaN"

definition f_square :: "f32 \<Rightarrow> f32" where
  "f_square x = f_mul x x"

fun f_sqrt :: "f32 \<Rightarrow> f32" where
  "f_sqrt (Fin a) = (if a < 0 then NaN else Fin (sqrt a))"
| "f_sqrt PInf = PInf"
| "f_sqrt NInf = NaN"
| "f_sqrt NaN = NaN"

fun f_exp :: "f32 \<Rightarrow> f32" where
  "f_exp (Fin a) = f_range (Fin (exp a))"
| "f_exp PInf = PInf"
| "f_exp NInf = Fin 0"
| "f_exp NaN = NaN"

text \<open>\<^verbatim>\<open>x < y\<close> on tensor elements; false as soon as one side is NaN.\<close>

fun f_less :: "f32 \<Rightarrow> f32 \<Rightarrow> bool" where
  "f_less (Fin a) (Fin b) = (a < b)"
| "f_less NaN _ = False"
| "f_less _ NaN = False"
| "f_less _ NInf = False"
| "f_less PInf _ = False"
| "f_less _ _ = True"

definition f_greater :: "f32 \<Rightarrow> f32 \<Rightarrow> bool" where
  "f_greater x y = f_less y x"

text \<open>\<^verbatim>\<open>tf.maximum\<close> and \<^verbatim>\<open>tf.minimum\<close>: NaN if either argument is NaN.\<close>

definition f_maximum :: "f32 \<Rightarrow> f32 \<Rightarrow> f32" where
  "f_maximum x y = (if is_nan x \<or> is_nan y then NaN else if f_less x y then y else x)"

definition f_minimum :: "f32 \<Rightarrow> f32 \<Rightarrow> f32" where
  "f_minimum x y = (if is_nan x \<or> is_nan y then NaN else if f_less y x then y else x)"

text \<open>\<^verbatim>\<open>tf.clip_by_value(t, lo, hi)\<close> is \<^verbatim>\<open>maximum(minimum(t, hi), lo)\<close>.\<close>

definition clip_by_value :: "f32 \<Rightarrow> f32 \<Rightarrow> f32 \<Rightarrow> f32" where
  "clip_by_value t lo hi = f_maximum (f_minimum t hi) lo"

text \<open>A point is the last axis of size 2 of a tensor: its x- and y-coordinate.\<close>

type_synonym point = "f32 \<times> f32"

definition p_sub :: "point \<Rightarrow> point \<Rightarrow> point" where
  "p_sub a b = (f_sub (fst a) (fst b), f_sub (snd a) (snd b))"

text \<open>\<^verbatim>\<open>tf.reduce_sum\<close> over the coordinate axis of a point.\<close>

definition reduce_sum2 :: "point \<Rightarrow> f32" where
  "reduce_sum2 a = f_add (fst a) (snd a)"

definition p_mul :: "point \<Rightarrow> point \<Rightarrow> point" where
  "p_mul a b = (f_mul (fst a) (fst b), f_mul (snd a) (snd b))"

definition p_scale :: "f32 \<Rightarrow> point \<Rightarrow> point" where
  "p_scale c a = (f_mul c (fst a), f_mul c (snd a))"

definition p_square :: "point \<Rightarrow> point" where
  "p_square a = (f_square (fst a), f_square (snd a))"

datatype error = InvalidArgument | IndexError | KeyError | StopIteration | TypeError

section \<open>distance_to_edge\<close>

text \<open>
  The query points of \<^verbatim>\<open>distance_to_edge\<close> are a tensor of shape \<open>(d_0, ..., d_n, 2)\<close>.
  The model covers the ranks up to 3: a single point of shape \<open>(2,)\<close>, a list of points of
  shape \<open>(n, 2)\<close> and a grid of points of shape \<open>(h, w, 2)\<close>, the shape \<^verbatim>\<open>make_edge_maps\<close>
  passes. The two edge tensors have the same shape \<open>(n_edges, 2)\<close> and are lists of
  points, paired position by position.
\<close>

datatype points = Point point | PointList "point list" | PointGrid "point list list"

text \<open>
  \<^verbatim>\<open>n_pt_dims = tf.rank(points) - 1\<close>, after \<^verbatim>\<open>expand_to_rank(points, 2)\<close> has turned a
  single point into a list of one point.
\<close>

fun n_pt_dims :: "points \<Rightarrow> nat" where
  "n_pt_dims (Point _) = 1"
| "n_pt_dims (PointList _) = 1"
| "n_pt_dims (PointGrid _) = 2"

text \<open>The statements of the function body, for one query point and the list of edges.\<close>

definition direction_vector :: "point list \<Rightarrow> point list \<Rightarrow> point list" where
  "direction_vector edge_source edge_destination =
     map2 (\<lambda>d s. p_sub d s) edge_destination edge_source"

definition edge_length :: "point list \<Rightarrow> f32 list" where
  "edge_length dv = map (\<lambda>v. f_maximum (reduce_sum2 (p_square v)) (Fin 1)) dv"

definition source_relative_points :: "point \<Rightarrow> point list \<Rightarrow> point list" where
  "source_relative_points p edge_source = map (\<lambda>s. p_sub p s) edge_source"

definition line_projections :: "point list \<Rightarrow> point list \<Rightarrow> f32 list \<Rightarrow> f32 list" where
  "line_projections srp dv el =
     map (\<lambda>(r, v, l). clip_by_value (f_div (reduce_sum2 (p_mul r v)) l) (Fin 0) (Fin 1))
       (zip srp (zip dv el))"

definition distances :: "f32 list \<Rightarrow> point list \<Rightarrow> point list \<Rightarrow> f32 list" where
  "distances lp dv srp =
     map (\<lambda>(t, v, r). reduce_sum2 (p_square (p_sub (p_scale t v) r)))
       (zip lp (zip dv srp))"

definition point_distances :: "point \<Rightarrow> point list \<Rightarrow> point list \<Rightarrow> f32 list" where
  "point_distances p edge_source edge_destination =
     (let dv = direction_vector edge_source edge_destination;
          el = edge_length dv;
          srp = source_relative_points p edge_source;
          lp = line_projections srp dv el
      in distances lp dv srp)"

text \<open>
  \<^verbatim>\<open>source_relative_points\<close> has rank \<open>n_pt_dims + 2\<close>. The projection reduces it with the
  literal \<^verbatim>\<open>axis=3\<close>, which is its coordinate axis only when \<open>n_pt_dims = 2\<close>; for a list of
  points the tensor has rank 3 and the reduction over axis 3 is rejected by TensorFlow
  (invalid reduction dimension). The final reduction uses \<^verbatim>\<open>axis=-1\<close>.
\<close>

definition distance_to_edge :: "points \<Rightarrow> point list \<Rightarrow> point list \<Rightarrow> error + f32 list list list" where
  "distance_to_edge pts edge_source edge_destination =
     (if n_pt_dims pts + 2 \<le> 3 then Inl InvalidArgument
      else case pts of
        PointGrid g \<Rightarrow> Inr (map (map (\<lambda>p. point_distances p edge_source edge_destination)) g)
      | _ \<Rightarrow> Inl InvalidArgument)"

section \<open>make_edge_maps\<close>

text \<open>
  Modelled from the spec: \<^verbatim>\<open>gaussian_pdf\<close> of \<^verbatim>\<open>sleap.nn.data.utils\<close> is imported by
  \<^verbatim>\<open>edge_maps.py\<close> and is not part of the sources at hand. Section 4.3 of the
  specification gives it as the unnormalised Gaussian
  \<open>confidence = exp(-distance\<^sup>2 / (2 * sigma\<^sup>2))\<close> of the value it is applied to.
\<close>

definition gaussian_pdf :: "f32 \<Rightarrow> f32 \<Rightarrow> f32" where
  "gaussian_pdf x sigma =
     f_exp (f_div (f_neg (f_square x)) (f_mul (Fin 2) (f_square sigma)))"

text \<open>
  \<^verbatim>\<open>tf.stack(tf.meshgrid(xv, yv), axis=-1)\<close>: row \<open>i\<close>, column \<open>j\<close> holds \<open>(xv[j], yv[i])\<close>.
\<close>

definition meshgrid :: "f32 list \<Rightarrow> f32 list \<Rightarrow> point list list" where
  "meshgrid xv yv = map (\<lambda>y. map (\<lambda>x. (x, y)) xv) yv"

definition make_edge_maps ::
  "f32 list \<Rightarrow> f32 list \<Rightarrow> point list \<Rightarrow> point list \<Rightarrow> f32 \<Rightarrow> error + f32 list list list" where
  "make_edge_maps xv yv edge_source edge_destination sigma =
     (let sampling_grid = meshgrid xv yv in
      case distance_to_edge (PointGrid sampling_grid) edge_source edge_destination of
        Inl e \<Rightarrow> Inl e
      | Inr dists \<Rightarrow> Inr (map (map (map (\<lambda>x. gaussian_pdf x sigma))) dists))"

section \<open>make_pafs\<close>

text \<open>
  \<^verbatim>\<open>tf.linalg.norm(v, axis=-1)\<close>: the square root of the sum of the squared coordinates,
  the squares and their sum in the range of the format.
\<close>

definition p_norm :: "point \<Rightarrow> f32" where
  "p_norm v =
     f_sqrt (f_range (reduce_sum2 (f_range (f_square (fst v)), f_range (f_square (snd v)))))"

definition unit_vectors :: "point list \<Rightarrow> point list \<Rightarrow> point list" where
  "unit_vectors edge_source edge_destination =
     map (\<lambda>v. (f_div (fst v) (p_norm v), f_div (snd v) (p_norm v)))
       (map2 (\<lambda>d s. p_sub d s) edge_destination edge_source)"

definition make_pafs ::
  "f32 list \<Rightarrow> f32 list \<Rightarrow> point list \<Rightarrow> point list \<Rightarrow> f32 \<Rightarrow> error + point list list list" where
  "make_pafs xv yv edge_source edge_destination sigma =
     (let uv = unit_vectors edge_source edge_destination in
      case make_edge_maps xv yv edge_source edge_destination sigma of
        Inl e \<Rightarrow> Inl e
      | Inr edge_confidence_map \<Rightarrow>
          Inr (map (map (\<lambda>cell. map2 (\<lambda>c u. p_scale c u) cell uv)) edge_confidence_map))"

section \<open>make_multi_pafs\<close>

text \<open>
  A tensor of shape \<open>(n, m, 2)\<close>: the instances of a frame (\<open>m\<close> nodes each) or the edge
  end points of the instances (\<open>m\<close> edges each). The size \<open>m\<close> of the second axis is part
  of the tensor also when it has no rows. Every row of a tensor has \<open>m\<close> points.
\<close>

record tensor3 =
  dim1 :: nat
  rows :: "point list list"

definition wf_tensor3 :: "tensor3 \<Rightarrow> bool" where
  "wf_tensor3 t = list_all (\<lambda>r. length r = dim1 t) (rows t)"

text \<open>\<^verbatim>\<open>tf.gather(t, i, axis=0)\<close> with a scalar index.\<close>

definition gather0 :: "tensor3 \<Rightarrow> nat \<Rightarrow> error + point list" where
  "gather0 t i = (if i < length (rows t) then Inr (rows t ! i) else Inl InvalidArgument)"

type_synonym pafs = "point list list list"

definition zeros :: "nat \<Rightarrow> nat \<Rightarrow> nat \<Rightarrow> pafs" where
  "zeros h w n = replicate h (replicate w (replicate n (Fin 0, Fin 0)))"

text \<open>\<^verbatim>\<open>tf.where(tf.math.is_nan(paf), 0.0, paf)\<close>, element by element.\<close>

definition nan_to_zero :: "f32 \<Rightarrow> f32" where
  "nan_to_zero x = (if is_nan x then Fin 0 else x)"

definition p_nan_to_zero :: "point \<Rightarrow> point" where
  "p_nan_to_zero a = (nan_to_zero (fst a), nan_to_zero (snd a))"

definition pafs_nan_to_zero :: "pafs \<Rightarrow> pafs" where
  "pafs_nan_to_zero paf = map (map (map p_nan_to_zero)) paf"

definition p_add :: "point \<Rightarrow> point \<Rightarrow> point" where
  "p_add a b = (f_add (fst a) (fst b), f_add (snd a) (snd b))"

text \<open>\<^verbatim>\<open>pafs += ...\<close> on two tensors of the same shape \<open>(h, w, n_edges, 2)\<close>.\<close>

definition pafs_add :: "pafs \<Rightarrow> pafs \<Rightarrow> pafs" where
  "pafs_add a b = map2 (map2 (map2 p_add)) a b"

text \<open>The loop \<^verbatim>\<open>for i in range(n_instances)\<close>, over the indices still to visit.\<close>

fun accumulate_pafs ::
  "f32 list \<Rightarrow> f32 list \<Rightarrow> tensor3 \<Rightarrow> tensor3 \<Rightarrow> f32 \<Rightarrow> nat list \<Rightarrow> pafs \<Rightarrow> error + pafs" where
  "accumulate_pafs xv yv edge_sources edge_destinations sigma [] pafs = Inr pafs"
| "accumulate_pafs xv yv edge_sources edge_destinations sigma (i # is) pafs =
     (case gather0 edge_sources i of
        Inl e \<Rightarrow> Inl e
      | Inr edge_source \<Rightarrow>
     (case gather0 edge_destinations i of
        Inl e \<Rightarrow> Inl e
      | Inr edge_destination \<Rightarrow>
     (case make_pafs xv yv edge_source edge_destination sigma of
        Inl e \<Rightarrow> Inl e
      | Inr paf \<Rightarrow>
          accumulate_pafs xv yv edge_sources edge_destinations sigma is
            (pafs_add pafs (pafs_nan_to_zero paf)))))"

definition make_multi_pafs ::
  "f32 list \<Rightarrow> f32 list \<Rightarrow> tensor3 \<Rightarrow> tensor3 \<Rightarrow> f32 \<Rightarrow> error + pafs" where
  "make_multi_pafs xv yv edge_sources edge_destinations sigma =
     (let grid_height = length yv;
          grid_width = length xv;
          n_edges = dim1 edge_sources;
          n_instances = length (rows edge_sources)
      in accumulate_pafs xv yv edge_sources edge_destinations sigma [0..<n_instances]
           (zeros grid_height grid_width n_edges))"

section \<open>get_edge_points\<close>

text \<open>
  \<^verbatim>\<open>tf.gather(t, inds, axis=1)\<close>: the points of every row at the given node indices. An
  index outside \<open>[0, m)\<close> is an error of the gather.
\<close>

definition gather1 :: "tensor3 \<Rightarrow> int list \<Rightarrow> error + tensor3" where
  "gather1 t inds =
     (if list_all (\<lambda>i. 0 \<le> i \<and> i < int (dim1 t)) inds
      then Inr \<lparr>dim1 = length inds, rows = map (\<lambda>r. map (\<lambda>i. r ! nat i) inds) (rows t)\<rparr>
      else Inl InvalidArgument)"

definition get_edge_points :: "tensor3 \<Rightarrow> (int \<times> int) list \<Rightarrow> error + tensor3 \<times> tensor3" where
  "get_edge_points instances edge_inds =
     (let source_inds = map fst edge_inds;
          destination_inds = map snd edge_inds
      in case gather1 instances source_inds of
           Inl e \<Rightarrow> Inl e
         | Inr edge_sources \<Rightarrow>
        (case gather1 instances destination_inds of
           Inl e \<Rightarrow> Inl e
         | Inr edge_destinations \<Rightarrow> Inr (edge_sources, edge_destinations)))"

section \<open>PartAffinityFieldsGenerator\<close>

text \<open>
  Of a \<^verbatim>\<open>sleap.Skeleton\<close> the generator reads \<^verbatim>\<open>edge_inds\<close> only: the pairs of source and
  destination node index of its edges.
\<close>

record skeleton =
  edge_inds :: "(int \<times> int) list"

record generator =
  sigma :: f32
  output_stride :: int
  skeletons :: "skeleton list option"
  flatten_channels :: bool

text \<open>
  The values a record of the stream holds under its keys: an image (its height, its
  width and its pixel data, of which only the two sizes are read), a tensor of points,
  a tensor of indices, and the two forms of a generated field.
\<close>

datatype tensor =
    ImageTensor nat nat "nat list"
  | Points tensor3
  | Inds "int list"
  | Pafs pafs
  | FlatPafs "f32 list list list"

type_synonym example = "string \<rightharpoonup> tensor"

definition input_keys :: "string list" where
  "input_keys = [''image'', ''instances'', ''skeleton_inds'']"

definition output_keys :: "string list" where
  "output_keys = input_keys @ [''part_affinity_fields'']"

text \<open>
  The in-image test of \<^verbatim>\<open>generate_pafs\<close>: every coordinate is compared with \<open>0\<close> and with
  the last grid coordinate of its axis, \<^verbatim>\<open>reduce_all\<close> joins the two coordinates of a
  point and \<^verbatim>\<open>reduce_any\<close> the points of an instance.
\<close>

definition point_in_img :: "f32 \<Rightarrow> f32 \<Rightarrow> point \<Rightarrow> bool" where
  "point_in_img x_max y_max p =
     ((f_greater (fst p) (Fin 0) \<and> f_less (fst p) x_max) \<and>
      (f_greater (snd p) (Fin 0) \<and> f_less (snd p) y_max))"

definition in_img :: "f32 \<Rightarrow> f32 \<Rightarrow> point list \<Rightarrow> bool" where
  "in_img x_max y_max instance = list_ex (point_in_img x_max y_max) instance"

text \<open>\<^verbatim>\<open>tf.boolean_mask(instances, in_img)\<close> keeps the rows whose mask entry is true.\<close>

definition boolean_mask :: "tensor3 \<Rightarrow> (point list \<Rightarrow> bool) \<Rightarrow> tensor3" where
  "boolean_mask t keep = t\<lparr>rows := filter keep (rows t)\<rparr>"

text \<open>\<^verbatim>\<open>v[-1]\<close> on a grid vector.\<close>

definition last_elem :: "f32 list \<Rightarrow> error + f32" where
  "last_elem v = (if v = [] then Inl IndexError else Inr (last v))"

text \<open>\<^verbatim>\<open>tf.reshape(pafs, [grid_height, grid_width, n_edges * 2])\<close>.\<close>

definition flatten_pafs :: "pafs \<Rightarrow> f32 list list list" where
  "flatten_pafs p = map (map (\<lambda>cell. concat (map (\<lambda>v. [fst v, snd v]) cell))) p"

definition generate_pafs ::
  "generator \<Rightarrow> f32 list \<Rightarrow> f32 list \<Rightarrow> (int \<times> int) list \<Rightarrow> example \<Rightarrow> error + example" where
  "generate_pafs self xv yv edge_inds_0 example =
     (case example ''instances'' of
        None \<Rightarrow> Inl KeyError
      | Some (Points instances) \<Rightarrow>
         (case last_elem xv of Inl e \<Rightarrow> Inl e | Inr x_max \<Rightarrow>
         (case last_elem yv of Inl e \<Rightarrow> Inl e | Inr y_max \<Rightarrow>
         (let instances' = boolean_mask instances (in_img x_max y_max) in
          case get_edge_points instances' edge_inds_0 of
            Inl e \<Rightarrow> Inl e
          | Inr (edge_sources, edge_destinations) \<Rightarrow>
         (case make_multi_pafs xv yv edge_sources edge_destinations (sigma self) of
            Inl e \<Rightarrow> Inl e
          | Inr pafs \<Rightarrow>
              Inr (example(''part_affinity_fields'' \<mapsto>
                (if flatten_channels self then FlatPafs (flatten_pafs pafs) else Pafs pafs)))))))
      | Some _ \<Rightarrow> Inl TypeError)"

text \<open>
  \<^verbatim>\<open>transform_dataset\<close>. The dataset is the list of its records. \<^verbatim>\<open>next(iter(input_ds))\<close>
  reads the first record from an iterator of its own and leaves the dataset as it is;
  the mapped dataset yields, record by record, the result of \<^verbatim>\<open>generate_pafs\<close> or its
  error. \<^verbatim>\<open>make_grid_vectors\<close> of \<^verbatim>\<open>sleap.nn.data.utils\<close> is not part of the sources at
  hand and is a parameter: it maps the image height, the image width and the output
  stride to the grid vectors \<open>(xv, yv)\<close>.
\<close>

definition transform_dataset ::
  "(nat \<Rightarrow> nat \<Rightarrow> int \<Rightarrow> f32 list \<times> f32 list) \<Rightarrow> generator \<Rightarrow> example list \<Rightarrow>
     error + (error + example) list" where
  "transform_dataset make_grid_vectors self input_ds =
     (case input_ds of
        [] \<Rightarrow> Inl StopIteration
      | test_example # _ \<Rightarrow>
         (case test_example ''image'' of
            None \<Rightarrow> Inl KeyError
          | Some (ImageTensor image_height image_width _) \<Rightarrow>
             (let (xv, yv) = make_grid_vectors image_height image_width (output_stride self) in
              case skeletons self of
                None \<Rightarrow> Inl TypeError
              | Some [] \<Rightarrow> Inl IndexError
              | Some (skeleton_0 # _) \<Rightarrow>
                  Inr (map (generate_pafs self xv yv (edge_inds skeleton_0)) input_ds))
          | Some _ \<Rightarrow> Inl TypeError))"

section \<open>Derived notions\<close>

text \<open>
  The distance of one query point to one edge, as the statements of \<^verbatim>\<open>distance_to_edge\<close>
  compute it, and the same formula on real coordinates.
\<close>

definition seg_dist :: "real \<Rightarrow> real \<Rightarrow> real \<Rightarrow> real \<Rightarrow> real \<Rightarrow> real \<Rightarrow> real" where
  "seg_dist px py sx sy dx dy =
     (let vx = dx - sx; vy = dy - sy;
          l = max (vx * vx + vy * vy) 1;
          rx = px - sx; ry = py - sy;
          t = max (min ((rx * vx + ry * vy) / l) 1) 0
      in (t * vx - rx) * (t * vx - rx) + (t * vy - ry) * (t * vy - ry))"

definition point_edge_distance :: "point \<Rightarrow> point \<Rightarrow> point \<Rightarrow> f32" where
  "point_edge_distance p s d =
     (let v = p_sub d s;
          l = f_maximum (reduce_sum2 (p_square v)) (Fin 1);
          r = p_sub p s;
          t = clip_by_value (f_div (reduce_sum2 (p_mul r v)) l) (Fin 0) (Fin 1)
      in reduce_sum2 (p_square (p_sub (p_scale t v) r)))"



text \<open>
  A coordinate difference of an edge whose square stays in the range of the format: it
  is zero, or its magnitude lies between \<open>2\<^sup>-\<^sup>6\<^sup>0\<close> and \<open>2\<^sup>6\<^sup>0\<close>. An edge is in range when its
  end points are finite and both of its coordinate differences are.
\<close>

definition coord_in_range :: "real \<Rightarrow> bool" where
  "coord_in_range v = (v = 0 \<or> (1 / 2 ^ 60 \<le> \<bar>v\<bar> \<and> \<bar>v\<bar> \<le> 2 ^ 60))"



text \<open>
  The field \<^verbatim>\<open>make_pafs\<close> returns for one instance, written without the error cases that
  cannot occur on a grid (\<open>make_pafs_total\<close>), and the sum of a list of points from the
  left, starting at zero, as the loop of \<^verbatim>\<open>make_multi_pafs\<close> accumulates it.
\<close>

definition single_pafs :: "f32 list \<Rightarrow> f32 list \<Rightarrow> point list \<Rightarrow> point list \<Rightarrow> f32 \<Rightarrow> pafs" where
  "single_pafs xv yv es ed sg =
     map (map (\<lambda>p. map2 (\<lambda>c u. p_scale c u)
        (map (\<lambda>x. gaussian_pdf x sg) (point_distances p es ed)) (unit_vectors es ed)))
       (meshgrid xv yv)"




text \<open>
  The generated field of a result of \<^verbatim>\<open>generate_pafs\<close>: the value under
  \<^verbatim>\<open>part_affinity_fields\<close>, or the error.
\<close>

definition paf_field :: "error + example \<Rightarrow> error + tensor option" where
  "paf_field r = (case r of Inl e \<Rightarrow> Inl e | Inr ex \<Rightarrow> Inr (ex ''part_affinity_fields''))"



text \<open>
  The edge indices of a skeleton are node indices of instances with \<open>n_nodes\<close> nodes.
\<close>

definition valid_edge_inds :: "nat \<Rightarrow> (int \<times> int) list \<Rightarrow> bool" where
  "valid_edge_inds n_nodes einds =
     list_all (\<lambda>e. (0 \<le> fst e \<and> fst e < int n_nodes) \<and> (0 \<le> snd e \<and> snd e < int n_nodes)) einds"

text \<open>
  The generated fields of the results of a transformed dataset, and two records that
  agree on every key other than \<^verbatim>\<open>skeleton_inds\<close>.
\<close>

definition pafs_of_output :: "error + (error + example) list \<Rightarrow> error + (error + tensor option) list" where
  "pafs_of_output out = (case out of Inl e \<Rightarrow> Inl e | Inr rs \<Rightarrow> Inr (map paf_field rs))"

definition same_but_skeleton_inds :: "example \<Rightarrow> example \<Rightarrow> bool" where
  "same_but_skeleton_inds a b = (\<forall>key. key \<noteq> ''skeleton_inds'' \<longrightarrow> a key = b key)"

section \<open>Properties of distance_to_edge\<close>

lemma point_distances_nth:
  assumes "length es = length ed" "e < length es"
  shows "point_distances p es ed ! e = point_edge_distance p (es ! e) (ed ! e)"
  using assms
  by (simp add: point_distances_def distances_def line_projections_def edge_length_def
      source_relative_points_def direction_vector_def point_edge_distance_def Let_def)

lemma length_point_distances:
  "length es = length ed \<Longrightarrow> length (point_distances p es ed) = length es"
  by (simp add: point_distances_def distances_def line_projections_def edge_length_def
      source_relative_points_def direction_vector_def Let_def)

lemma f_sub_Fin [simp]: "f_sub (Fin a) (Fin b) = Fin (a - b)"
  by (simp add: f_sub_def)

lemma f_square_Fin [simp]: "f_square (Fin a) = Fin (a * a)"
  by (simp add: f_square_def)

lemma f_maximum_Fin [simp]: "f_maximum (Fin a) (Fin b) = Fin (max a b)"
  by (simp add: f_maximum_def max_def)

lemma f_minimum_Fin [simp]: "f_minimum (Fin a) (Fin b) = Fin (min a b)"
  by (simp add: f_minimum_def min_def)

lemma clip_by_value_Fin [simp]:
  "clip_by_value (Fin a) (Fin lo) (Fin hi) = Fin (max (min a hi) lo)"
  by (simp add: clip_by_value_def)

lemma seg_len_pos: "max x (1::real) \<noteq> 0"
proof -
  have "1 \<le> max x 1" by simp
  then show ?thesis by linarith
qed

lemma point_edge_distance_fin:
  "point_edge_distance (Fin px, Fin py) (Fin sx, Fin sy) (Fin dx, Fin dy) =
     Fin (seg_dist px py sx sy dx dy)"
  by (simp add: point_edge_distance_def seg_dist_def Let_def p_sub_def
      reduce_sum2_def p_square_def p_mul_def p_scale_def seg_len_pos)

lemma distance_to_edge_grid:
  "distance_to_edge (PointGrid g) es ed = Inr (map (map (\<lambda>p. point_distances p es ed)) g)"
  by (simp add: distance_to_edge_def)

lemma seg_dist_on_segment:
  assumes "0 \<le> t" "t \<le> 1"
    and "1 \<le> (dx - sx) * (dx - sx) + (dy - sy) * (dy - sy) \<or> (dx = sx \<and> dy = sy)"
  shows "seg_dist (sx + t * (dx - sx)) (sy + t * (dy - sy)) sx sy dx dy = 0"
proof -
  define vx where "vx = dx - sx"
  define vy where "vy = dy - sy"
  define n where "n = vx * vx + vy * vy"
  show ?thesis
  proof (cases "dx = sx \<and> dy = sy")
    case True
    then show ?thesis by (simp add: seg_dist_def)
  next
    case False
    with assms(3) have n1: "1 \<le> n" by (simp add: n_def vx_def vy_def)
    then have l: "max n 1 = n" by simp
    have "t * vx * vx + t * vy * vy = t * n"
      by (simp add: n_def algebra_simps)
    then have proj: "(t * vx * vx + t * vy * vy) / n = t"
      using n1 by simp
    have clip: "max (min t 1) 0 = t" using assms(1,2) by simp
    show ?thesis
      unfolding seg_dist_def Let_def vx_def [symmetric] vy_def [symmetric]
      by (simp add: n_def [symmetric] l proj clip)
  qed
qed

lemma distance_to_edge_cell:
  assumes "length es = length ed" "e < length es" "i < length g" "j < length (g ! i)"
  shows "\<exists>D. distance_to_edge (PointGrid g) es ed = Inr D \<and>
    D ! i ! j ! e = point_edge_distance (g ! i ! j) (es ! e) (ed ! e)"
  using assms by (simp add: distance_to_edge_grid point_distances_nth)

lemma seg_quadratic_diff:
  fixes n c t u vx vy rx ry :: real
  assumes n: "n = vx * vx + vy * vy" and c: "rx * vx + ry * vy = n * c"
  shows "((u * vx - rx) * (u * vx - rx) + (u * vy - ry) * (u * vy - ry)) -
         ((t * vx - rx) * (t * vx - rx) + (t * vy - ry) * (t * vy - ry)) =
         n * ((u - t) * (u + t - 2 * c))"
proof -
  have "((u * vx - rx) * (u * vx - rx) + (u * vy - ry) * (u * vy - ry)) -
         ((t * vx - rx) * (t * vx - rx) + (t * vy - ry) * (t * vy - ry)) =
        (u * u - t * t) * (vx * vx + vy * vy) - 2 * (u - t) * (rx * vx + ry * vy)"
    by (simp add: algebra_simps)
  also have "\<dots> = (u * u - t * t) * n - 2 * (u - t) * (n * c)"
    by (simp only: n c)
  also have "\<dots> = n * ((u - t) * (u + t - 2 * c))"
    by (simp add: algebra_simps)
  finally show ?thesis .
qed

lemma clip_minimises:
  fixes c u :: real
  assumes "0 \<le> u" "u \<le> 1"
  shows "0 \<le> (u - max (min c 1) 0) * (u + max (min c 1) 0 - 2 * c)"
proof -
  consider "c < 0" | "1 < c" | "0 \<le> c \<and> c \<le> 1" by linarith
  then show ?thesis
  proof cases
    case 1
    then have "max (min c 1) 0 = 0" by simp
    moreover have "0 \<le> u * (u - 2 * c)" using assms 1 by (intro mult_nonneg_nonneg) auto
    ultimately show ?thesis by simp
  next
    case 2
    then have "max (min c 1) 0 = 1" by simp
    moreover have "0 \<le> (u - 1) * (u + 1 - 2 * c)"
      using assms 2 by (intro mult_nonpos_nonpos) auto
    ultimately show ?thesis by simp
  next
    case 3
    then have "max (min c 1) 0 = c" by simp
    then show ?thesis by simp
  qed
qed

lemma seg_dist_minimal:
  assumes len: "1 \<le> (dx - sx) * (dx - sx) + (dy - sy) * (dy - sy)"
    and u: "0 \<le> u" "u \<le> 1"
  shows "seg_dist px py sx sy dx dy \<le>
    (u * (dx - sx) - (px - sx)) * (u * (dx - sx) - (px - sx)) +
    (u * (dy - sy) - (py - sy)) * (u * (dy - sy) - (py - sy))"
proof -
  define vx vy rx ry where "vx = dx - sx" and "vy = dy - sy" and "rx = px - sx" and "ry = py - sy"
  define n where "n = vx * vx + vy * vy"
  define c where "c = (rx * vx + ry * vy) / n"
  define t where "t = max (min c 1) 0"
  have n1: "1 \<le> n" using len by (simp add: n_def vx_def vy_def)
  then have l: "max n 1 = n" by simp
  have c: "rx * vx + ry * vy = n * c" using n1 by (simp add: c_def)
  have sd: "seg_dist px py sx sy dx dy =
      (t * vx - rx) * (t * vx - rx) + (t * vy - ry) * (t * vy - ry)"
    unfolding seg_dist_def Let_def vx_def [symmetric] vy_def [symmetric]
      rx_def [symmetric] ry_def [symmetric] n_def [symmetric] l c_def [symmetric] t_def [symmetric]
    by (rule refl)
  have "0 \<le> n * ((u - t) * (u + t - 2 * c))"
    using n1 clip_minimises [OF u, of c] by (simp add: t_def)
  then have "0 \<le> ((u * vx - rx) * (u * vx - rx) + (u * vy - ry) * (u * vy - ry)) -
         ((t * vx - rx) * (t * vx - rx) + (t * vy - ry) * (t * vy - ry))"
    by (simp only: seg_quadratic_diff [OF n_def c])
  then show ?thesis
    unfolding sd vx_def [symmetric] vy_def [symmetric] rx_def [symmetric] ry_def [symmetric]
    by linarith
qed

lemma seg_dist_attained:
  "\<exists>t. 0 \<le> t \<and> t \<le> 1 \<and> seg_dist px py sx sy dx dy =
    (t * (dx - sx) - (px - sx)) * (t * (dx - sx) - (px - sx)) +
    (t * (dy - sy) - (py - sy)) * (t * (dy - sy) - (py - sy))"
  by (rule exI [of _ "max (min (((px - sx) * (dx - sx) + (py - sy) * (dy - sy)) /
        max ((dx - sx) * (dx - sx) + (dy - sy) * (dy - sy)) 1) 1) 0"])
    (simp add: seg_dist_def Let_def)

lemma seg_dist_zero_length:
  "seg_dist px py sx sy sx sy = (px - sx) * (px - sx) + (py - sy) * (py - sy)"
  by (simp add: seg_dist_def Let_def algebra_simps)

text \<open>
  C1. For every set of query points and every list of edges, \<^verbatim>\<open>distance_to_edge\<close> returns
  the squared distance of each point to each edge. On a grid of points the function
  computes the clipped-projection formula (\<open>distance_to_edge_cell\<close>,
  \<open>point_edge_distance_fin\<close>, \<open>seg_dist_minimal\<close>, \<open>seg_dist_zero_length\<close>). On a list of
  points of shape \<open>(n, 2)\<close>, which the documented contract admits, the reduction over the
  literal axis 3 fails and no distance is returned.
\<close>

theorem distance_to_edge_point_list_fails:
  "distance_to_edge (PointList [(Fin 0, Fin 0)]) [(Fin 0, Fin 0)] [(Fin 1, Fin 0)]
     = Inl InvalidArgument"
  by (simp add: distance_to_edge_def)

text \<open>
  C4, as amended. For every edge whose squared length is at least 1 or which has length
  zero, and every point of a grid of query points that lies on the segment between the
  edge's source and destination, \<^verbatim>\<open>distance_to_edge\<close> returns 0 for that point and edge.
  For a shorter edge the squared length is clamped to 1 and the distance of a point on
  the segment need not be 0.
\<close>

theorem distance_to_edge_on_segment:
  assumes "0 \<le> t" "t \<le> 1"
    and "length es = length ed" "e < length es"
    and "es ! e = (Fin sx, Fin sy)" "ed ! e = (Fin dx, Fin dy)"
    and "i < length g" "j < length (g ! i)"
    and "g ! i ! j = (Fin (sx + t * (dx - sx)), Fin (sy + t * (dy - sy)))"
    and "1 \<le> (dx - sx) * (dx - sx) + (dy - sy) * (dy - sy) \<or> (dx = sx \<and> dy = sy)"
  shows "\<exists>D. distance_to_edge (PointGrid g) es ed = Inr D \<and> D ! i ! j ! e = Fin 0"
proof -
  from distance_to_edge_cell [OF assms(3,4,7,8)] obtain D where
    D: "distance_to_edge (PointGrid g) es ed = Inr D"
      "D ! i ! j ! e = point_edge_distance (g ! i ! j) (es ! e) (ed ! e)"
    by blast
  have "D ! i ! j ! e = Fin 0"
    using D(2) assms(5,6,9) seg_dist_on_segment [OF assms(1,2,10)]
    by (simp add: point_edge_distance_fin)
  with D(1) show ?thesis by blast
qed

theorem distance_to_edge_on_segment_witness:
  "\<exists>D. distance_to_edge (PointGrid [[(Fin 1, Fin 0)]]) [(Fin 0, Fin 0)] [(Fin 2, Fin 0)] = Inr D
     \<and> D ! 0 ! 0 ! 0 = Fin 0"
  using distance_to_edge_on_segment [of "1/2" "[(Fin 0, Fin 0)]" "[(Fin 2, Fin 0)]" 0 0 0 2 0 0
      "[[(Fin 1, Fin 0)]]" 0]
  by simp

theorem distance_to_edge_short_edge_counterexample:
  "(1/2 :: real) = 0 + 1 * (1/2 - 0) \<and> (0::real) = 0 + 1 * (0 - 0) \<and>
   distance_to_edge (PointGrid [[(Fin (1/2), Fin 0)]]) [(Fin 0, Fin 0)] [(Fin (1/2), Fin 0)]
     = Inr [[[Fin (9/64)]]] \<and> Fin (9/64) \<noteq> Fin 0"
  by (simp add: distance_to_edge_grid point_distances_def distances_def line_projections_def
      edge_length_def source_relative_points_def direction_vector_def Let_def p_sub_def
      reduce_sum2_def p_square_def p_mul_def p_scale_def)

section \<open>Properties of make_edge_maps\<close>

















section \<open>Properties of make_pafs\<close>

lemma length_unit_vectors:
  "length es = length ed \<Longrightarrow> length (unit_vectors es ed) = length es"
  by (simp add: unit_vectors_def)

lemma unit_vectors_nth:
  assumes "length es = length ed" "e < length es"
  shows "unit_vectors es ed ! e =
    (let v = p_sub (ed ! e) (es ! e) in (f_div (fst v) (p_norm v), f_div (snd v) (p_norm v)))"
  using assms by (simp add: unit_vectors_def Let_def)

lemma sum_squares_zero_iff: "(a::real) * a + b * b = 0 \<longleftrightarrow> a = 0 \<and> b = 0"
  by (simp add: sum_squares_eq_zero_iff)

lemma sum_squares_nonneg: "\<not> (a::real) * a + b * b < 0"
  by (simp add: not_less)

lemma f_range_id:
  assumes "r = 0 \<or> (1 / 2 ^ 150 < \<bar>r\<bar> \<and> \<bar>r\<bar> < 2 ^ 128)"
  shows "f_range (Fin r) = Fin r"
  using assms by (auto simp: f_range_def)

lemma square_in_range:
  assumes "coord_in_range v"
  shows "v * v = 0 \<or> (1 / 2 ^ 120 \<le> v * v \<and> v * v \<le> 2 ^ 120)"
proof (cases "v = 0")
  case True
  then show ?thesis by simp
next
  case False
  with assms have b: "1 / 2 ^ 60 \<le> \<bar>v\<bar>" "\<bar>v\<bar> \<le> 2 ^ 60"
    by (simp_all add: coord_in_range_def)
  have "\<bar>v\<bar> * \<bar>v\<bar> \<le> 2 ^ 60 * 2 ^ 60"
    using b(2) by (intro mult_mono) simp_all
  then have up: "v * v \<le> 2 ^ 120" by simp
  have "(1 / 2 ^ 60) * (1 / 2 ^ 60) \<le> \<bar>v\<bar> * \<bar>v\<bar>"
    using b(1) by (intro mult_mono) simp_all
  then have low: "1 / 2 ^ 120 \<le> v * v" by simp
  from low up show ?thesis by simp
qed

lemma f_range_square:
  assumes "coord_in_range v"
  shows "f_range (Fin (v * v)) = Fin (v * v)"
proof (rule f_range_id)
  have "(1::real) / 2 ^ 150 < 1 / 2 ^ 120" "(2::real) ^ 120 < 2 ^ 128" by simp_all
  then show "v * v = 0 \<or> (1 / 2 ^ 150 < \<bar>v * v\<bar> \<and> \<bar>v * v\<bar> < 2 ^ 128)"
    using square_in_range [OF assms] by auto
qed

lemma f_range_sum_squares:
  assumes "coord_in_range a" "coord_in_range b"
  shows "f_range (Fin (a * a + b * b)) = Fin (a * a + b * b)"
proof (rule f_range_id)
  define A B where "A = a * a" and "B = b * b"
  have A: "A = 0 \<or> (1 / 2 ^ 120 \<le> A \<and> A \<le> 2 ^ 120)"
    and B: "B = 0 \<or> (1 / 2 ^ 120 \<le> B \<and> B \<le> 2 ^ 120)"
    using square_in_range [OF assms(1)] square_in_range [OF assms(2)]
    by (simp_all add: A_def B_def)
  have nn: "0 \<le> A" "0 \<le> B" by (simp_all add: A_def B_def)
  have ub: "A \<le> 2 ^ 120" "B \<le> 2 ^ 120" using A B by auto
  have c: "(1::real) / 2 ^ 150 < 1 / 2 ^ 120" "(2::real) ^ 120 + 2 ^ 120 < 2 ^ 128" by simp_all
  consider "A = 0" "B = 0" | "1 / 2 ^ 120 \<le> A" | "1 / 2 ^ 120 \<le> B" using A B by blast
  then have "A + B = 0 \<or> (1 / 2 ^ 150 < \<bar>A + B\<bar> \<and> \<bar>A + B\<bar> < 2 ^ 128)"
  proof cases
    case 1
    then show ?thesis by simp
  next
    case 2
    have "1 / 2 ^ 150 < A + B" using 2 nn(2) c(1) by linarith
    moreover have "A + B < 2 ^ 128" using ub c(2) by linarith
    ultimately show ?thesis using nn by simp
  next
    case 3
    have "1 / 2 ^ 150 < A + B" using 3 nn(1) c(1) by linarith
    moreover have "A + B < 2 ^ 128" using ub c(2) by linarith
    ultimately show ?thesis using nn by simp
  qed
  then show "a * a + b * b = 0 \<or>
      (1 / 2 ^ 150 < \<bar>a * a + b * b\<bar> \<and> \<bar>a * a + b * b\<bar> < 2 ^ 128)"
    by (simp only: A_def B_def)
qed

lemma p_norm_in_range:
  assumes "coord_in_range a" "coord_in_range b"
  shows "p_norm (Fin a, Fin b) = Fin (sqrt (a * a + b * b))"
  using f_range_square [OF assms(1)] f_range_square [OF assms(2)]
    f_range_sum_squares [OF assms]
  by (simp add: p_norm_def reduce_sum2_def sum_squares_nonneg)

lemma unit_vector_degenerate:
  assumes "length es = length ed" "e < length es"
    and "es ! e = (Fin sx, Fin sy)" "ed ! e = (Fin sx, Fin sy)"
  shows "unit_vectors es ed ! e = (NaN, NaN)"
  using assms
  by (simp add: unit_vectors_nth p_sub_def p_norm_def reduce_sum2_def f_range_def
      inf_of_sign_def)

lemma unit_vector_fin:
  assumes "length es = length ed" "e < length es"
    and "es ! e = (Fin sx, Fin sy)" "ed ! e = (Fin dx, Fin dy)"
    and "dx \<noteq> sx \<or> dy \<noteq> sy"
    and "coord_in_range (dx - sx)" "coord_in_range (dy - sy)"
  shows "unit_vectors es ed ! e =
    (Fin ((dx - sx) / sqrt ((dx - sx) * (dx - sx) + (dy - sy) * (dy - sy))),
     Fin ((dy - sy) / sqrt ((dx - sx) * (dx - sx) + (dy - sy) * (dy - sy))))"
proof -
  have "(dx - sx) * (dx - sx) + (dy - sy) * (dy - sy) \<noteq> 0"
    using assms(5) by (simp add: sum_squares_zero_iff)
  then have nz: "sqrt ((dx - sx) * (dx - sx) + (dy - sy) * (dy - sy)) \<noteq> 0"
    by simp
  have v: "p_sub (ed ! e) (es ! e) = (Fin (dx - sx), Fin (dy - sy))"
    by (simp add: assms(3,4) p_sub_def)
  show ?thesis
    using assms(1,2) nz
    by (simp only: unit_vectors_nth Let_def v p_norm_in_range [OF assms(6,7)] fst_conv snd_conv
        f_div.simps if_False)
qed

lemma unit_norm:
  fixes a b :: real
  assumes "a \<noteq> 0 \<or> b \<noteq> 0"
  shows "(a / sqrt (a * a + b * b)) * (a / sqrt (a * a + b * b)) +
         (b / sqrt (a * a + b * b)) * (b / sqrt (a * a + b * b)) = 1"
proof -
  define n where "n = a * a + b * b"
  have n: "0 < n"
    using assms unfolding n_def by (metis sum_squares_zero_iff sum_squares_nonneg not_less_iff_gr_or_eq)
  have "sqrt n * sqrt n = n" using n by simp
  then have "(a / sqrt n) * (a / sqrt n) + (b / sqrt n) * (b / sqrt n) = (a * a + b * b) / n"
    by (simp add: add_divide_distrib)
  also have "\<dots> = n / n" by (simp only: n_def)
  also have "\<dots> = 1" using n by simp
  finally show ?thesis unfolding n_def .
qed

lemma make_pafs_Inr:
  "make_edge_maps xv yv es ed sg = Inr M \<Longrightarrow>
   make_pafs xv yv es ed sg =
     Inr (map (map (\<lambda>cell. map2 (\<lambda>c u. p_scale c u) cell (unit_vectors es ed))) M)"
  by (simp add: make_pafs_def)

lemma make_edge_maps_total:
  "make_edge_maps xv yv es ed sg =
     Inr (map (map (\<lambda>p. map (\<lambda>x. gaussian_pdf x sg) (point_distances p es ed))) (meshgrid xv yv))"
  by (simp add: make_edge_maps_def distance_to_edge_grid)

lemma make_edge_maps_shape:
  assumes "make_edge_maps xv yv es ed sg = Inr M" "length es = length ed"
    "i < length yv" "j < length xv"
  shows "length M = length yv" "length (M ! i) = length xv" "length (M ! i ! j) = length es"
  using assms by (auto simp: make_edge_maps_total meshgrid_def length_point_distances)

lemma make_pafs_cell:
  assumes "make_edge_maps xv yv es ed sg = Inr M" "length es = length ed"
    "i < length yv" "j < length xv" "e < length es"
  shows "\<exists>P. make_pafs xv yv es ed sg = Inr P \<and>
     P ! i ! j ! e = p_scale (M ! i ! j ! e) (unit_vectors es ed ! e)"
proof -
  note sh = make_edge_maps_shape [OF assms(1-4)]
  let ?P = "map (map (\<lambda>cell. map2 (\<lambda>c u. p_scale c u) cell (unit_vectors es ed))) M"
  have "?P ! i ! j ! e = p_scale (M ! i ! j ! e) (unit_vectors es ed ! e)"
    using sh assms(2-5) by (simp add: length_unit_vectors)
  then show ?thesis using make_pafs_Inr [OF assms(1)] by blast
qed

text \<open>
  C7, as amended. For an edge with finite, distinct end points whose coordinate
  differences are each zero or of magnitude between \<open>2\<^sup>-\<^sup>6\<^sup>0\<close> and \<open>2\<^sup>6\<^sup>0\<close>, \<^verbatim>\<open>make_pafs\<close> holds
  at every grid cell the unit vector \<open>(destination - source) / ||destination - source||\<close>,
  of norm 1 in exact arithmetic, scaled by the cell's value of the edge's confidence
  map; for an edge whose end points coincide the unit vector and the field at every
  grid cell are NaN.
\<close>

theorem make_pafs_unit_direction:
  assumes "length es = length ed" "e < length es" "i < length yv" "j < length xv"
    and "es ! e = (Fin sx, Fin sy)" "ed ! e = (Fin dx, Fin dy)"
    and "coord_in_range (dx - sx)" "coord_in_range (dy - sy)"
  shows "\<exists>M P. make_edge_maps xv yv es ed sg = Inr M \<and> make_pafs xv yv es ed sg = Inr P \<and>
     ((dx \<noteq> sx \<or> dy \<noteq> sy) \<longrightarrow>
        (\<exists>ux uy. ux = (dx - sx) / sqrt ((dx - sx) * (dx - sx) + (dy - sy) * (dy - sy)) \<and>
                 uy = (dy - sy) / sqrt ((dx - sx) * (dx - sx) + (dy - sy) * (dy - sy)) \<and>
                 unit_vectors es ed ! e = (Fin ux, Fin uy) \<and>
                 ux * ux + uy * uy = 1 \<and>
                 P ! i ! j ! e = (f_mul (M ! i ! j ! e) (Fin ux), f_mul (M ! i ! j ! e) (Fin uy)))) \<and>
     ((dx = sx \<and> dy = sy) \<longrightarrow>
        unit_vectors es ed ! e = (NaN, NaN) \<and> P ! i ! j ! e = (NaN, NaN))"
proof -
  obtain M where M: "make_edge_maps xv yv es ed sg = Inr M"
    by (simp add: make_edge_maps_total)
  from make_pafs_cell [OF M assms(1,3,4,2)] obtain P where
    P: "make_pafs xv yv es ed sg = Inr P"
      "P ! i ! j ! e = p_scale (M ! i ! j ! e) (unit_vectors es ed ! e)"
    by blast
  have nondeg: "(dx \<noteq> sx \<or> dy \<noteq> sy) \<longrightarrow>
        (\<exists>ux uy. ux = (dx - sx) / sqrt ((dx - sx) * (dx - sx) + (dy - sy) * (dy - sy)) \<and>
                 uy = (dy - sy) / sqrt ((dx - sx) * (dx - sx) + (dy - sy) * (dy - sy)) \<and>
                 unit_vectors es ed ! e = (Fin ux, Fin uy) \<and>
                 ux * ux + uy * uy = 1 \<and>
                 P ! i ! j ! e = (f_mul (M ! i ! j ! e) (Fin ux), f_mul (M ! i ! j ! e) (Fin uy)))"
  proof
    assume ne: "dx \<noteq> sx \<or> dy \<noteq> sy"
    then have ne': "dx - sx \<noteq> 0 \<or> dy - sy \<noteq> 0" by simp
    show "\<exists>ux uy. ux = (dx - sx) / sqrt ((dx - sx) * (dx - sx) + (dy - sy) * (dy - sy)) \<and>
                 uy = (dy - sy) / sqrt ((dx - sx) * (dx - sx) + (dy - sy) * (dy - sy)) \<and>
                 unit_vectors es ed ! e = (Fin ux, Fin uy) \<and>
                 ux * ux + uy * uy = 1 \<and>
                 P ! i ! j ! e = (f_mul (M ! i ! j ! e) (Fin ux), f_mul (M ! i ! j ! e) (Fin uy))"
      using unit_vector_fin [OF assms(1,2,5,6) ne assms(7,8)] unit_norm [OF ne'] P(2)
      by (simp add: p_scale_def)
  qed
  have deg: "(dx = sx \<and> dy = sy) \<longrightarrow>
        unit_vectors es ed ! e = (NaN, NaN) \<and> P ! i ! j ! e = (NaN, NaN)"
  proof
    assume eq: "dx = sx \<and> dy = sy"
    then have "unit_vectors es ed ! e = (NaN, NaN)"
      using unit_vector_degenerate [OF assms(1,2,5)] assms(6) by simp
    moreover have "f_mul c NaN = NaN" for c by (cases c) simp_all
    ultimately show "unit_vectors es ed ! e = (NaN, NaN) \<and> P ! i ! j ! e = (NaN, NaN)"
      using P(2) by (simp add: p_scale_def)
  qed
  show ?thesis using M P(1) nondeg deg by blast
qed

theorem make_pafs_unit_direction_witness:
  "(\<exists>M P. make_edge_maps [Fin 0] [Fin 0] [(Fin 0, Fin 0)] [(Fin 1, Fin 0)] (Fin 1) = Inr M \<and>
      make_pafs [Fin 0] [Fin 0] [(Fin 0, Fin 0)] [(Fin 1, Fin 0)] (Fin 1) = Inr P \<and>
      unit_vectors [(Fin 0, Fin 0)] [(Fin 1, Fin 0)] ! 0 = (Fin 1, Fin 0) \<and>
      P ! 0 ! 0 ! 0 = (f_mul (M ! 0 ! 0 ! 0) (Fin 1), f_mul (M ! 0 ! 0 ! 0) (Fin 0))) \<and>
   (\<exists>P. make_pafs [Fin 0] [Fin 0] [(Fin 2, Fin 3)] [(Fin 2, Fin 3)] (Fin 1) = Inr P \<and>
      P ! 0 ! 0 ! 0 = (NaN, NaN))"
proof
  have r: "coord_in_range (1 - 0)" "coord_in_range (0 - 0)" "coord_in_range (2 - 2)"
    "coord_in_range (3 - 3)"
    by (simp_all add: coord_in_range_def)
  show "\<exists>M P. make_edge_maps [Fin 0] [Fin 0] [(Fin 0, Fin 0)] [(Fin 1, Fin 0)] (Fin 1) = Inr M \<and>
      make_pafs [Fin 0] [Fin 0] [(Fin 0, Fin 0)] [(Fin 1, Fin 0)] (Fin 1) = Inr P \<and>
      unit_vectors [(Fin 0, Fin 0)] [(Fin 1, Fin 0)] ! 0 = (Fin 1, Fin 0) \<and>
      P ! 0 ! 0 ! 0 = (f_mul (M ! 0 ! 0 ! 0) (Fin 1), f_mul (M ! 0 ! 0 ! 0) (Fin 0))"
    using make_pafs_unit_direction [of "[(Fin 0, Fin 0)]" "[(Fin 1, Fin 0)]" 0 0 "[Fin 0]" 0
        "[Fin 0]" 0 0 1 0 "Fin 1"] r(1,2)
    by simp
  show "\<exists>P. make_pafs [Fin 0] [Fin 0] [(Fin 2, Fin 3)] [(Fin 2, Fin 3)] (Fin 1) = Inr P \<and>
      P ! 0 ! 0 ! 0 = (NaN, NaN)"
    using make_pafs_unit_direction [of "[(Fin 2, Fin 3)]" "[(Fin 2, Fin 3)]" 0 0 "[Fin 0]" 0
        "[Fin 0]" 2 3 2 3 "Fin 1"] r(3,4)
    by auto
qed

theorem make_pafs_edge_range_counterexample:
  "(0::real) \<noteq> 1 / 2 ^ 100 \<and>
   unit_vectors [(Fin 0, Fin 0)] [(Fin (1 / 2 ^ 100), Fin (1 / 2 ^ 100))] ! 0 = (PInf, PInf) \<and>
   make_pafs [Fin 0] [Fin 0] [(Fin 0, Fin 0)] [(Fin (1 / 2 ^ 100), Fin (1 / 2 ^ 100))] (Fin 1)
     = Inr [[[(PInf, PInf)]]] \<and>
   (- (2 ^ 70) :: real) \<noteq> 2 ^ 70 \<and>
   unit_vectors [(Fin (- (2 ^ 70)), Fin 0)] [(Fin (2 ^ 70), Fin 0)] ! 0 = (Fin 0, Fin 0)"
proof -
  have small: "(1::real) / 2 ^ 100 * (1 / 2 ^ 100) \<le> 1 / 2 ^ 150" by simp
  have big: "(2::real) ^ 128 \<le> (2 ^ 70 + 2 ^ 70) * (2 ^ 70 + 2 ^ 70)" by simp
  have n1: "p_norm (Fin (1 / 2 ^ 100), Fin (1 / 2 ^ 100)) = Fin 0"
    using small by (simp add: p_norm_def reduce_sum2_def f_range_def)
  have n2: "p_norm (Fin (2 ^ 70 + 2 ^ 70), Fin 0) = PInf"
    using big by (simp add: p_norm_def reduce_sum2_def f_range_def)
  have u1: "unit_vectors [(Fin 0, Fin 0)] [(Fin (1 / 2 ^ 100), Fin (1 / 2 ^ 100))]
      = [(PInf, PInf)]"
    using n1 by (simp add: unit_vectors_def p_sub_def inf_of_sign_def)
  have u2: "unit_vectors [(Fin (- (2 ^ 70)), Fin 0)] [(Fin (2 ^ 70), Fin 0)] = [(Fin 0, Fin 0)]"
    using n2 by (simp add: unit_vectors_def p_sub_def)
  have M: "make_edge_maps [Fin 0] [Fin 0] [(Fin 0, Fin 0)]
      [(Fin (1 / 2 ^ 100), Fin (1 / 2 ^ 100))] (Fin 1) = Inr [[[Fin 1]]]"
    by (simp add: make_edge_maps_total meshgrid_def point_distances_def distances_def
        line_projections_def edge_length_def source_relative_points_def direction_vector_def
        Let_def p_sub_def reduce_sum2_def p_square_def p_mul_def p_scale_def
        gaussian_pdf_def f_range_def)
  have "make_pafs [Fin 0] [Fin 0] [(Fin 0, Fin 0)]
      [(Fin (1 / 2 ^ 100), Fin (1 / 2 ^ 100))] (Fin 1) =
      Inr (map (map (\<lambda>cell. map2 (\<lambda>c u. p_scale c u) cell [(PInf, PInf)])) [[[Fin 1]]])"
    by (simp only: make_pafs_Inr [OF M] u1)
  also have "\<dots> = Inr [[[(PInf, PInf)]]]"
    by (simp add: p_scale_def inf_of_sign_def)
  finally have P: "make_pafs [Fin 0] [Fin 0] [(Fin 0, Fin 0)]
      [(Fin (1 / 2 ^ 100), Fin (1 / 2 ^ 100))] (Fin 1) = Inr [[[(PInf, PInf)]]]" .
  have d1: "(0::real) \<noteq> 1 / 2 ^ 100" by simp
  have d2: "(- (2 ^ 70) :: real) \<noteq> 2 ^ 70" by simp
  have e1: "unit_vectors [(Fin 0, Fin 0)] [(Fin (1 / 2 ^ 100), Fin (1 / 2 ^ 100))] ! 0
      = (PInf, PInf)"
    by (simp only: u1 nth_Cons_0)
  have e2: "unit_vectors [(Fin (- (2 ^ 70)), Fin 0)] [(Fin (2 ^ 70), Fin 0)] ! 0 = (Fin 0, Fin 0)"
    by (simp only: u2 nth_Cons_0)
  show ?thesis using d1 e1 P d2 e2 by (intro conjI)
qed

section \<open>Properties of make_multi_pafs\<close>

lemma make_pafs_total: "make_pafs xv yv es ed sg = Inr (single_pafs xv yv es ed sg)"
  by (simp add: make_pafs_def make_edge_maps_total single_pafs_def comp_def)

lemma f_add_right_commute: "f_add (f_add x y) z = f_add (f_add x z) y"
  by (cases x; cases y; cases z) simp_all

lemma p_add_right_commute: "p_add (p_add a b) c = p_add (p_add a c) b"
  by (simp add: p_add_def f_add_right_commute)

lemma map2_right_commute:
  assumes "\<And>x y z. f (f x y) z = f (f x z) y"
  shows "map2 f (map2 f a b) c = map2 f (map2 f a c) b"
proof (induction a arbitrary: b c)
  case Nil
  show ?case by simp
next
  case (Cons x a)
  show ?case
  proof (cases b)
    case Nil
    then show ?thesis by simp
  next
    case bc: (Cons y b')
    show ?thesis
    proof (cases c)
      case Nil
      then show ?thesis by simp
    next
      case (Cons z c')
      with bc Cons.IH [of b' c'] assms [of x y z] show ?thesis by simp
    qed
  qed
qed

lemma pafs_add_right_commute: "pafs_add (pafs_add a b) c = pafs_add (pafs_add a c) b"
  unfolding pafs_add_def
  by (intro map2_right_commute p_add_right_commute)

lemma accumulate_pafs_foldl:
  assumes "\<And>k. k \<in> set ks \<Longrightarrow> k < length (rows S) \<and> k < length (rows D)"
  shows "accumulate_pafs xv yv S D sg ks acc =
    Inr (foldl pafs_add acc
      (map (\<lambda>k. pafs_nan_to_zero (single_pafs xv yv (rows S ! k) (rows D ! k) sg)) ks))"
  using assms
proof (induction ks arbitrary: acc)
  case Nil
  show ?case by simp
next
  case (Cons k ks)
  have k: "k < length (rows S)" "k < length (rows D)" using Cons.prems [of k] by simp_all
  have rest: "\<And>k'. k' \<in> set ks \<Longrightarrow> k' < length (rows S) \<and> k' < length (rows D)"
    using Cons.prems by simp
  show ?case
    using k Cons.IH [OF rest] by (simp add: gather0_def make_pafs_total)
qed

lemma make_multi_pafs_foldl:
  assumes "length (rows D) = length (rows S)"
  shows "make_multi_pafs xv yv S D sg =
    Inr (foldl pafs_add (zeros (length yv) (length xv) (dim1 S))
      (map (\<lambda>k. pafs_nan_to_zero (single_pafs xv yv (rows S ! k) (rows D ! k) sg))
        [0..<length (rows S)]))"
  unfolding make_multi_pafs_def Let_def
  by (rule accumulate_pafs_foldl) (simp add: assms)

lemma make_multi_pafs_zip:
  "make_multi_pafs xv yv \<lparr>dim1 = n, rows = map fst zs\<rparr> \<lparr>dim1 = n, rows = map snd zs\<rparr> sg =
    Inr (foldl pafs_add (zeros (length yv) (length xv) n)
      (map (\<lambda>z. pafs_nan_to_zero (single_pafs xv yv (fst z) (snd z) sg)) zs))"
proof -
  have "map (\<lambda>k. pafs_nan_to_zero (single_pafs xv yv (map fst zs ! k) (map snd zs ! k) sg))
      [0..<length zs] = map (\<lambda>z. pafs_nan_to_zero (single_pafs xv yv (fst z) (snd z) sg)) zs"
    by (rule nth_equalityI) simp_all
  then show ?thesis by (simp add: make_multi_pafs_foldl)
qed

lemma foldl_pafs_add_mset:
  assumes "mset ps = mset qs"
  shows "foldl pafs_add acc ps = foldl pafs_add acc qs"
proof -
  have "fold (\<lambda>p a. pafs_add a p) ps = fold (\<lambda>p a. pafs_add a p) qs"
    by (rule fold_multiset_equiv [OF _ assms]) (simp add: fun_eq_iff pafs_add_right_commute)
  then show ?thesis by (simp add: foldl_conv_fold)
qed

text \<open>
  C8. Permuting the instances (the rows of \<^verbatim>\<open>edge_sources\<close> and \<^verbatim>\<open>edge_destinations\<close>, by one
  permutation) leaves the result of \<^verbatim>\<open>make_multi_pafs\<close> unchanged: the accumulation is
  commutative and associative over the instance axis. Arithmetic is exact here, so the
  results are equal and not only close.
\<close>

theorem make_multi_pafs_permutation:
  assumes "mset zs' = mset zs"
  shows "make_multi_pafs xv yv \<lparr>dim1 = n, rows = map fst zs'\<rparr> \<lparr>dim1 = n, rows = map snd zs'\<rparr> sg =
         make_multi_pafs xv yv \<lparr>dim1 = n, rows = map fst zs\<rparr> \<lparr>dim1 = n, rows = map snd zs\<rparr> sg"
proof -
  have "mset (map (\<lambda>z. pafs_nan_to_zero (single_pafs xv yv (fst z) (snd z) sg)) zs') =
        mset (map (\<lambda>z. pafs_nan_to_zero (single_pafs xv yv (fst z) (snd z) sg)) zs)"
    using assms by simp
  then have "foldl pafs_add (zeros (length yv) (length xv) n)
        (map (\<lambda>z. pafs_nan_to_zero (single_pafs xv yv (fst z) (snd z) sg)) zs') =
      foldl pafs_add (zeros (length yv) (length xv) n)
        (map (\<lambda>z. pafs_nan_to_zero (single_pafs xv yv (fst z) (snd z) sg)) zs)"
    by (rule foldl_pafs_add_mset)
  then show ?thesis
    by (simp only: make_multi_pafs_zip)
qed

theorem make_multi_pafs_permutation_witness:
  "make_multi_pafs [Fin 0, Fin 1] [Fin 0] \<lparr>dim1 = 1, rows = [[(Fin 0, Fin 0)], [(Fin 1, Fin 0)]]\<rparr>
       \<lparr>dim1 = 1, rows = [[(Fin 0, Fin 1)], [(Fin 2, Fin 0)]]\<rparr> (Fin 1) =
   make_multi_pafs [Fin 0, Fin 1] [Fin 0] \<lparr>dim1 = 1, rows = [[(Fin 1, Fin 0)], [(Fin 0, Fin 0)]]\<rparr>
       \<lparr>dim1 = 1, rows = [[(Fin 2, Fin 0)], [(Fin 0, Fin 1)]]\<rparr> (Fin 1)"
  using make_multi_pafs_permutation [of
      "[([(Fin 0, Fin 0)], [(Fin 0, Fin 1)]), ([(Fin 1, Fin 0)], [(Fin 2, Fin 0)])]"
      "[([(Fin 1, Fin 0)], [(Fin 2, Fin 0)]), ([(Fin 0, Fin 0)], [(Fin 0, Fin 1)])]"
      "[Fin 0, Fin 1]" "[Fin 0]" 1 "Fin 1"]
  by simp


























lemma make_multi_pafs_no_instances:
  "rows S = [] \<Longrightarrow> make_multi_pafs xv yv S D sg = Inr (zeros (length yv) (length xv) (dim1 S))"
  by (simp add: make_multi_pafs_def)

section \<open>Properties of PartAffinityFieldsGenerator\<close>








lemma get_edge_points_ok:
  assumes "valid_edge_inds (dim1 t) einds"
  shows "get_edge_points t einds =
    Inr (\<lparr>dim1 = length einds, rows = map (\<lambda>r. map (\<lambda>i. r ! nat i) (map fst einds)) (rows t)\<rparr>,
         \<lparr>dim1 = length einds, rows = map (\<lambda>r. map (\<lambda>i. r ! nat i) (map snd einds)) (rows t)\<rparr>)"
proof -
  have "list_all (\<lambda>i. 0 \<le> i \<and> i < int (dim1 t)) (map fst einds)"
    "list_all (\<lambda>i. 0 \<le> i \<and> i < int (dim1 t)) (map snd einds)"
    using assms by (auto simp: valid_edge_inds_def list_all_iff)
  then show ?thesis by (simp add: get_edge_points_def gather1_def)
qed

lemma get_edge_points_shape:
  assumes "get_edge_points t einds = Inr (S, D)"
  shows "wf_tensor3 S \<and> wf_tensor3 D \<and> dim1 S = length einds \<and> dim1 D = dim1 S \<and>
     length (rows S) = length (rows t) \<and> length (rows D) = length (rows S)"
  using assms
  by (auto simp: get_edge_points_def gather1_def wf_tensor3_def list_all_iff Let_def
      split: if_splits)




lemma flatten_zeros:
  "flatten_pafs (zeros h w n) = replicate h (replicate w (replicate (2 * n) (Fin 0)))"
proof -
  have "concat (map (\<lambda>v. [fst v, snd v]) (replicate n (Fin 0, Fin 0))) = replicate (2 * n) (Fin 0)"
    by (induction n) simp_all
  then show ?thesis by (simp add: flatten_pafs_def zeros_def)
qed

lemma boolean_mask_simps:
  "dim1 (boolean_mask t keep) = dim1 t" "rows (boolean_mask t keep) = filter keep (rows t)"
  by (simp_all add: boolean_mask_def)



text \<open>
  C9. For a record none of whose instances passes the in-image test (and a skeleton
  whose edge indices are node indices), the generated field is the all-zero tensor of
  shape \<open>(grid_height, grid_width, n_edges, 2)\<close>, or its flattened form of shape
  \<open>(grid_height, grid_width, 2 * n_edges)\<close>; no error is raised.
\<close>

theorem generate_pafs_no_instances:
  assumes "ex ''instances'' = Some (Points t)" "valid_edge_inds (dim1 t) einds"
    and "xv \<noteq> []" "yv \<noteq> []"
    and "filter (in_img (last xv) (last yv)) (rows t) = []"
  shows "generate_pafs self xv yv einds ex =
    Inr (ex(''part_affinity_fields'' \<mapsto>
      (if flatten_channels self
       then FlatPafs (replicate (length yv) (replicate (length xv)
              (replicate (2 * length einds) (Fin 0))))
       else Pafs (zeros (length yv) (length xv) (length einds)))))"
proof -
  let ?t = "boolean_mask t (in_img (last xv) (last yv))"
  have v: "valid_edge_inds (dim1 ?t) einds" using assms(2) by (simp add: boolean_mask_simps)
  have r: "rows ?t = []" using assms(5) by (simp add: boolean_mask_simps)
  obtain S D where g: "get_edge_points ?t einds = Inr (S, D)"
    using get_edge_points_ok [OF v] by blast
  from get_edge_points_shape [OF g] r have S: "rows S = []" "dim1 S = length einds" by simp_all
  have "make_multi_pafs xv yv S D (sigma self) = Inr (zeros (length yv) (length xv) (length einds))"
    using make_multi_pafs_no_instances [OF S(1)] S(2) by simp
  then show ?thesis
    using assms(1,3,4) g by (simp add: generate_pafs_def last_elem_def Let_def flatten_zeros)
qed

theorem generate_pafs_no_instances_witness:
  "generate_pafs \<lparr>sigma = Fin 1, output_stride = 1, skeletons = None, flatten_channels = False\<rparr>
     [Fin 0, Fin 1] [Fin 0, Fin 1] [(0, 1)]
     (Map.empty(''instances'' \<mapsto>
        Points \<lparr>dim1 = 2, rows = [[(Fin 50, Fin 50), (Fin 60, Fin 60)]]\<rparr>)) =
   Inr (Map.empty(''instances'' \<mapsto>
        Points \<lparr>dim1 = 2, rows = [[(Fin 50, Fin 50), (Fin 60, Fin 60)]]\<rparr>,
      ''part_affinity_fields'' \<mapsto> Pafs (zeros 2 2 1)))"
  using generate_pafs_no_instances [of
      "Map.empty(''instances'' \<mapsto> Points \<lparr>dim1 = 2, rows = [[(Fin 50, Fin 50), (Fin 60, Fin 60)]]\<rparr>)"
      "\<lparr>dim1 = 2, rows = [[(Fin 50, Fin 50), (Fin 60, Fin 60)]]\<rparr>" "[(0, 1)]"
      "[Fin 0, Fin 1]" "[Fin 0, Fin 1]"
      "\<lparr>sigma = Fin 1, output_stride = 1, skeletons = None, flatten_channels = False\<rparr>"]
  by (simp add: valid_edge_inds_def in_img_def point_in_img_def f_greater_def numeral_2_eq_2)




lemma generate_pafs_skeleton_inds:
  assumes "same_but_skeleton_inds a b"
  shows "paf_field (generate_pafs self xv yv einds a) = paf_field (generate_pafs self xv yv einds b)"
proof -
  have "a ''instances'' = b ''instances''"
    using assms by (simp add: same_but_skeleton_inds_def)
  then show ?thesis
    by (auto simp: generate_pafs_def paf_field_def Let_def
        split: option.splits tensor.splits sum.splits prod.splits)
qed

lemma generate_pafs_skeletons_update:
  "generate_pafs (self\<lparr>skeletons := s\<rparr>) xv yv einds ex = generate_pafs self xv yv einds ex"
  by (auto simp: generate_pafs_def Let_def
      split: option.splits tensor.splits sum.splits prod.splits)

text \<open>
  C10. Two datasets whose records agree, position by position, on every key other than
  \<^verbatim>\<open>skeleton_inds\<close> give the same generated fields (and the same errors), and the
  skeletons after the first one do not influence the result.
\<close>

theorem transform_dataset_ignores_skeleton_inds:
  assumes "list_all2 same_but_skeleton_inds ds1 ds2"
  shows "pafs_of_output (transform_dataset make_grid_vectors self ds1) =
         pafs_of_output (transform_dataset make_grid_vectors self ds2) \<and>
     (\<forall>sk rest. skeletons self = Some (sk # rest) \<longrightarrow>
        transform_dataset make_grid_vectors self ds1 =
        transform_dataset make_grid_vectors (self\<lparr>skeletons := Some [sk]\<rparr>) ds1)"
proof
  have maps: "map paf_field (map (generate_pafs self xv yv einds) ds1) =
      map paf_field (map (generate_pafs self xv yv einds) ds2)" for xv yv einds
    using assms
    by (induction ds1 ds2 rule: list_all2_induct) (simp_all add: generate_pafs_skeleton_inds)
  show "pafs_of_output (transform_dataset make_grid_vectors self ds1) =
         pafs_of_output (transform_dataset make_grid_vectors self ds2)"
  proof (cases ds1)
    case Nil
    with assms have "ds2 = []" by simp
    with Nil show ?thesis by simp
  next
    case (Cons a as)
    with assms obtain b bs where ds2: "ds2 = b # bs" and ab: "same_but_skeleton_inds a b"
      by (auto simp: list_all2_Cons1)
    have img: "a ''image'' = b ''image''" using ab by (simp add: same_but_skeleton_inds_def)
    show ?thesis
      using maps img unfolding Cons ds2
      by (auto simp: transform_dataset_def pafs_of_output_def Let_def
          split: option.splits tensor.splits list.splits prod.splits)
  qed
  show "\<forall>sk rest. skeletons self = Some (sk # rest) \<longrightarrow>
        transform_dataset make_grid_vectors self ds1 =
        transform_dataset make_grid_vectors (self\<lparr>skeletons := Some [sk]\<rparr>) ds1"
    by (auto simp: transform_dataset_def generate_pafs_skeletons_update Let_def
        split: option.splits tensor.splits list.splits prod.splits)
qed

theorem transform_dataset_ignores_skeleton_inds_witness:
  "pafs_of_output (transform_dataset (\<lambda>h w s. ([Fin 0, Fin 1], [Fin 0, Fin 1]))
       \<lparr>sigma = Fin 1, output_stride = 1, skeletons = Some [\<lparr>edge_inds = [(0, 1)]\<rparr>],
        flatten_channels = False\<rparr>
       [Map.empty(''image'' \<mapsto> ImageTensor 2 2 [], ''instances'' \<mapsto> Points \<lparr>dim1 = 2, rows = []\<rparr>,
          ''skeleton_inds'' \<mapsto> Inds [0])]) =
   pafs_of_output (transform_dataset (\<lambda>h w s. ([Fin 0, Fin 1], [Fin 0, Fin 1]))
       \<lparr>sigma = Fin 1, output_stride = 1, skeletons = Some [\<lparr>edge_inds = [(0, 1)]\<rparr>],
        flatten_channels = False\<rparr>
       [Map.empty(''image'' \<mapsto> ImageTensor 2 2 [], ''instances'' \<mapsto> Points \<lparr>dim1 = 2, rows = []\<rparr>,
          ''skeleton_inds'' \<mapsto> Inds [1])])"
proof -
  have "list_all2 same_but_skeleton_inds
      [Map.empty(''image'' \<mapsto> ImageTensor 2 2 [], ''instances'' \<mapsto> Points \<lparr>dim1 = 2, rows = []\<rparr>,
          ''skeleton_inds'' \<mapsto> Inds [0])]
      [Map.empty(''image'' \<mapsto> ImageTensor 2 2 [], ''instances'' \<mapsto> Points \<lparr>dim1 = 2, rows = []\<rparr>,
          ''skeleton_inds'' \<mapsto> Inds [1])]"
    by (simp add: same_but_skeleton_inds_def)
  from transform_dataset_ignores_skeleton_inds [OF this] show ?thesis by blast
qed

end
